theory Spec2Isabelle
  imports Main
begin

section \<open>Messages of kpi\_mesh.py\<close>

text \<open>
  The gateway state carried by a status event (\<open>GatewayState\<close> of wirepas\_messaging).
  The handler only asks whether the state equals \<open>GatewayState.ONLINE\<close>.
\<close>

datatype GatewayState = ONLINE | OFFLINE

text \<open>
  Decoded messages. Both a status event and a get\_configs response carry \<open>gw_id\<close>;
  the event adds \<open>state\<close>, the response adds \<open>configs\<close>, the list of per-sink
  configuration dictionaries in the order received.
\<close>

record gw_message =
  gw_id :: string

record status_event = gw_message +
  state :: GatewayState

text \<open>
  One entry of \<open>message.configs\<close> is a dictionary. The only key the code reads is
  \<open>"network_address"\<close>: \<open>None\<close> stands for a dictionary without that key (the lookup
  \<open>config["network_address"]\<close> raises KeyError), \<open>Some a\<close> for a value that \<open>int()\<close>
  turns into \<open>a\<close>. Everything else in the dictionary is \<open>other_fields\<close>.
\<close>

record 'a config =
  network_address :: "int option"
  other_fields :: 'a

text \<open>
  A decoded get\_configs response; \<open>message.__dict__\<close>, the item put on the status
  queue, is this record as a whole. The dictionary built for an offline gateway,
  \<open>{"gw_id": message.gw_id, "configs": []}\<close>, has the same two keys.
\<close>

record 'a get_configs_response = gw_message +
  configs :: "'a config list"

text \<open>
  Modelled from the spec: \<open>Topics.request_message\<close> is not under src/. The spec's
  ConfigRequest is \<open>{gateway_id}\<close>; the model keeps the request name and the
  \<open>gw_id\<close> keyword argument that the status handler passes.
\<close>

record ConfigRequest =
  request_name :: string
  gateway_id :: string

definition request_message :: "string \<Rightarrow> string \<Rightarrow> ConfigRequest" where
  "request_message name gw = \<lparr>request_name = name, gateway_id = gw\<rparr>"

text \<open>
  The network filter \<open>network_id\<close> of the MQTT settings, as the response handler uses
  it: compared with \<open>"+"\<close>, otherwise passed to \<open>int()\<close>.
  \<open>AnyNetwork\<close> is the value \<open>"+"\<close>, \<open>Network n\<close> a value that \<open>int()\<close> turns into \<open>n\<close>,
  \<open>NotANumber\<close> any other value (\<open>int()\<close> raises ValueError).
\<close>

datatype network_id = AnyNetwork | Network int | NotANumber

section \<open>Exceptions\<close>

text \<open>
  The source has no \<open>raise\<close> of its own; these are the exceptions its expressions
  can raise. No handler changes a queue or the log before the point where it can
  raise, so \<open>Inl e\<close> stands for: \<open>e\<close> propagates out of the callback and the observer
  is as it was.
\<close>

datatype error =
    AttributeError    \<comment> \<open>\<open>put\<close> on a queue that is \<open>None\<close>\<close>
  | KeyError          \<comment> \<open>\<open>config["network_address"]\<close> on a dictionary without the key\<close>
  | ValueError        \<comment> \<open>\<open>int(network_id)\<close> on a value that is not a number\<close>
  | ParsingException  \<comment> \<open>\<open>from_payload\<close> on a payload that does not decode\<close>

section \<open>The observer\<close>

text \<open>
  The calls of \<open>self.logger.debug\<close>, one constructor per message of the source:
  \<^item> \<open>DataIgnored\<close>: "waiting for start signal, received mqtt data ignored"
  \<^item> \<open>StatusIgnored\<close>: "waiting for start signal, received mqtt gw status ignored"
  \<^item> \<open>ConfigReceived gw\<close>: "MQTT gw configuration received for gw '%s'."
  \<^item> \<open>ConfigNotProcessed gw nid\<close>: "MQTT gw configuration received for gw '%s' but not
    processed due network id filter '%s'."
  \<^item> \<open>ConfigIgnored\<close>: "waiting for start signal, received MQTT gw configuration ignored"
\<close>

datatype log_record =
    DataIgnored
  | StatusIgnored
  | ConfigReceived string
  | ConfigNotProcessed string network_id
  | ConfigIgnored

text \<open>
  The attributes of \<open>MultiMessageMqttObserver\<close> that the three callbacks touch.
  \<open>gw_status_queue\<close> and \<open>storage_queue\<close> come from \<open>kwargs.pop(..., None)\<close> and may be
  \<open>None\<close>; \<open>start_signal\<close> and \<open>rx_queue\<close> belong to the base class \<open>MQTTObserver\<close>
  (\<open>rx_queue\<close> holds what is sent to the MQTT broker). A queue is the list of the items
  put on it, oldest first; \<open>logger\<close> is the list of debug records written.
\<close>

record ('m, 'a) MultiMessageMqttObserver =
  start_signal :: bool
  gw_status_queue :: "'a get_configs_response list option"
  storage_queue :: "'m list option"
  rx_queue :: "ConfigRequest list"
  logger :: "log_record list"

text \<open>\<open>queue.put(item)\<close>; the queues are unbounded, so \<open>put\<close> never blocks.\<close>

definition put :: "'x list option \<Rightarrow> 'x \<Rightarrow> error + 'x list option" where
  "put queue item =
     (case queue of
        None \<Rightarrow> Inl AttributeError
      | Some items \<Rightarrow> Inr (Some (items @ [item])))"

subsection \<open>\<open>on_data_received\<close>\<close>

text \<open>
  The body of the callback (the decorator \<open>decode_topic_message\<close>, which hands it the
  message, is not under src/).
\<close>

definition on_data_received ::
  "('m, 'a) MultiMessageMqttObserver \<Rightarrow> 'm \<Rightarrow> error + ('m, 'a) MultiMessageMqttObserver" where
  "on_data_received self message =
     (if start_signal self then
        (case storage_queue self of
           Some items \<Rightarrow> Inr (self\<lparr>storage_queue := Some (items @ [message])\<rparr>)
         | None \<Rightarrow> Inr self)
      else Inr (self\<lparr>logger := logger self @ [DataIgnored]\<rparr>))"

subsection \<open>\<open>on_status_received\<close>\<close>

text \<open>
  \<open>from_payload\<close> is the decoder of wirepas\_messaging, a parameter here: \<open>None\<close> when
  the payload does not decode.
\<close>

definition on_status_received ::
  "('p \<Rightarrow> status_event option) \<Rightarrow> ('m, 'a) MultiMessageMqttObserver \<Rightarrow> 'p
     \<Rightarrow> error + ('m, 'a) MultiMessageMqttObserver" where
  "on_status_received from_payload self message =
     (if start_signal self then
        (case from_payload message of
           None \<Rightarrow> Inl ParsingException
         | Some message \<Rightarrow>
             if state message = ONLINE then
               Inr (self\<lparr>rx_queue :=
                          rx_queue self @ [request_message ''get_configs'' (gw_id message)]\<rparr>)
             else
               (case put (gw_status_queue self) \<lparr>gw_id = gw_id message, configs = []\<rparr> of
                  Inl e \<Rightarrow> Inl e
                | Inr queue \<Rightarrow> Inr (self\<lparr>gw_status_queue := queue\<rparr>)))
      else Inr (self\<lparr>logger := logger self @ [StatusIgnored]\<rparr>))"

subsection \<open>\<open>on_response_cb\<close>\<close>

text \<open>
  The \<open>for config in message.configs\<close> loop. The loop state is the status queue and
  \<open>configuration_processed\<close>. With a filter other than \<open>"+"\<close> the comparison evaluates
  \<open>int(config["network_address"])\<close> first, then \<open>int(network_id)\<close>; on equality the
  message is put once and \<open>break\<close> leaves the loop. With \<open>"+"\<close> the message is put
  for every entry.
\<close>

fun on_response_cb_loop ::
  "network_id \<Rightarrow> 'a get_configs_response \<Rightarrow> 'a config list
     \<Rightarrow> 'a get_configs_response list option \<times> bool
     \<Rightarrow> error + ('a get_configs_response list option \<times> bool)" where
  "on_response_cb_loop nid message [] (queue, configuration_processed) =
     Inr (queue, configuration_processed)"
| "on_response_cb_loop nid message (config # rest) (queue, configuration_processed) =
     (if nid \<noteq> AnyNetwork then
        (case network_address config of
           None \<Rightarrow> Inl KeyError
         | Some a \<Rightarrow>
             (case nid of
                Network n \<Rightarrow>
                  if a = n then
                    (case put queue message of
                       Inl e \<Rightarrow> Inl e
                     | Inr queue' \<Rightarrow> Inr (queue', True))
                  else on_response_cb_loop nid message rest (queue, configuration_processed)
              | _ \<Rightarrow> Inl ValueError))
      else
        (case put queue message of
           Inl e \<Rightarrow> Inl e
         | Inr queue' \<Rightarrow> on_response_cb_loop nid message rest (queue', True)))"

definition on_response_cb ::
  "('p \<Rightarrow> 'a get_configs_response option) \<Rightarrow> network_id
     \<Rightarrow> ('m, 'a) MultiMessageMqttObserver \<Rightarrow> 'p
     \<Rightarrow> error + ('m, 'a) MultiMessageMqttObserver" where
  "on_response_cb from_payload nid self message =
     (if start_signal self then
        (case from_payload message of
           None \<Rightarrow> Inl ParsingException
         | Some message \<Rightarrow>
             (case on_response_cb_loop nid message (configs message)
                     (gw_status_queue self, False) of
                Inl e \<Rightarrow> Inl e
              | Inr (queue, configuration_processed) \<Rightarrow>
                  Inr (self\<lparr>gw_status_queue := queue,
                            logger := logger self @
                              [if configuration_processed then ConfigReceived (gw_id message)
                               else ConfigNotProcessed (gw_id message) nid]\<rparr>)))
      else Inr (self\<lparr>logger := logger self @ [ConfigIgnored]\<rparr>))"

section \<open>Delivery of messages\<close>

text \<open>
  The three topic classes of \<open>message_subscribe_handlers\<close>: received data, gateway
  status and get\_configs responses. A data message arrives decoded, the other two as
  payloads.
\<close>

datatype ('m, 'p) mqtt_message =
    ReceivedData 'm
  | GwStatus 'p
  | GotGwConfigs 'p

text \<open>
  \<open>message_subscribe_handlers\<close>: the callback registered for each topic class; the
  response callback is generated with \<open>self.network_id\<close>.
\<close>

fun message_subscribe_handlers ::
  "('p \<Rightarrow> status_event option) \<Rightarrow> ('p \<Rightarrow> 'a get_configs_response option) \<Rightarrow> network_id
     \<Rightarrow> ('m, 'a) MultiMessageMqttObserver \<Rightarrow> ('m, 'p) mqtt_message
     \<Rightarrow> error + ('m, 'a) MultiMessageMqttObserver" where
  "message_subscribe_handlers status_from_payload configs_from_payload nid self (ReceivedData message) =
     on_data_received self message"
| "message_subscribe_handlers status_from_payload configs_from_payload nid self (GwStatus message) =
     on_status_received status_from_payload self message"
| "message_subscribe_handlers status_from_payload configs_from_payload nid self (GotGwConfigs message) =
     on_response_cb configs_from_payload nid self message"

text \<open>
  One delivery: the observer after the callback has run. An exception leaves the
  callback before anything was changed, so the observer is then as it was.
\<close>

definition deliver ::
  "('p \<Rightarrow> status_event option) \<Rightarrow> ('p \<Rightarrow> 'a get_configs_response option) \<Rightarrow> network_id
     \<Rightarrow> ('m, 'a) MultiMessageMqttObserver \<Rightarrow> ('m, 'p) mqtt_message
     \<Rightarrow> ('m, 'a) MultiMessageMqttObserver" where
  "deliver status_from_payload configs_from_payload nid self message =
     (case message_subscribe_handlers status_from_payload configs_from_payload nid self message of
        Inl e \<Rightarrow> self
      | Inr self' \<Rightarrow> self')"

section \<open>The daemon\<close>

text \<open>
  Modelled from the spec: the \<open>Daemon\<close> (the spec's Task Registry) and the base class
  \<open>MQTTObserver\<close>, which create, set and hand over \<open>start_signal\<close>, are not under
  src/. A process is the observer together with the signal that tells the tasks to
  stop.
\<close>

record ('m, 'a) process =
  observer :: "('m, 'a) MultiMessageMqttObserver"
  exit_signal :: bool

text \<open>
  Modelled from the spec: what can happen to a running process, the daemon's code
  being absent from src/. \<open>Start flag\<close> is \<open>start(gateAfterAllRunning)\<close>, \<open>Stop\<close> the stop
  of the registry, \<open>Deliver\<close> a message handed over by the broker, which may come at any
  moment, also after a stop.
\<close>

datatype ('m, 'p) step =
    Start bool
  | Stop
  | Deliver "('m, 'p) mqtt_message"

text \<open>
  Modelled from the spec: the daemon's \<open>build\<close> is not under src/; the Readiness Gate
  is initially unset.
\<close>

definition build :: "('m, 'a) MultiMessageMqttObserver \<Rightarrow> ('m, 'a) process" where
  "build obs = \<lparr>observer = obs\<lparr>start_signal := False\<rparr>, exit_signal = False\<rparr>"

text \<open>
  Modelled from the spec: the daemon's \<open>start\<close> and stop are not under src/.
  \<open>start\<close> sets the gate when its flag is true and otherwise leaves it alone (a start
  that fails sets no gate either); stopping signals the tasks to stop and does not touch
  the gate.
\<close>

fun daemon_step ::
  "('p \<Rightarrow> status_event option) \<Rightarrow> ('p \<Rightarrow> 'a get_configs_response option) \<Rightarrow> network_id
     \<Rightarrow> ('m, 'a) process \<Rightarrow> ('m, 'p) step \<Rightarrow> ('m, 'a) process" where
  "daemon_step sfp cfp nid proc (Start set_start_signal) =
     (if set_start_signal then proc\<lparr>observer := (observer proc)\<lparr>start_signal := True\<rparr>\<rparr>
      else proc)"
| "daemon_step sfp cfp nid proc Stop = proc\<lparr>exit_signal := True\<rparr>"
| "daemon_step sfp cfp nid proc (Deliver message) =
     proc\<lparr>observer := deliver sfp cfp nid (observer proc) message\<rparr>"

text \<open>A run of the process: the steps taken one after the other.\<close>

definition run ::
  "('p \<Rightarrow> status_event option) \<Rightarrow> ('p \<Rightarrow> 'a get_configs_response option) \<Rightarrow> network_id
     \<Rightarrow> ('m, 'a) process \<Rightarrow> ('m, 'p) step list \<Rightarrow> ('m, 'a) process" where
  "run sfp cfp nid proc steps = foldl (daemon_step sfp cfp nid) proc steps"

section \<open>Auxiliary facts\<close>

lemma put_Some: "put (Some items) item = Inr (Some (items @ [item]))"
  by (simp add: put_def)

lemma put_None: "put None item = Inl AttributeError"
  by (simp add: put_def)

lemma on_response_cb_loop_wildcard:
  "on_response_cb_loop AnyNetwork message cs (Some items, b) =
     Inr (Some (items @ replicate (length cs) message), b \<or> cs \<noteq> [])"
proof (induction cs arbitrary: items b)
  case Nil
  show ?case by simp
next
  case (Cons c cs)
  show ?case
    by (simp add: put_Some Cons.IH replicate_app_Cons_same)
qed



lemma handlers_keep_start_signal:
  "message_subscribe_handlers sfp cfp nid self message = Inr self' \<Longrightarrow>
   start_signal self' = start_signal self"
  by (cases message)
     (auto simp: on_data_received_def on_status_received_def on_response_cb_def
           split: if_splits option.splits sum.splits)

lemma deliver_start_signal:
  "start_signal (deliver sfp cfp nid self message) = start_signal self"
  by (auto simp: deliver_def handlers_keep_start_signal split: sum.splits)

lemma foldl_deliver_start_signal:
  "start_signal (foldl (deliver sfp cfp nid) self messages) = start_signal self"
  by (induction messages arbitrary: self) (simp_all add: deliver_start_signal)

lemma daemon_step_keeps_start_signal:
  "start_signal (observer proc) \<Longrightarrow> start_signal (observer (daemon_step sfp cfp nid proc s))"
  by (cases s) (simp_all add: deliver_start_signal)

lemma run_keeps_start_signal:
  "start_signal (observer proc) \<Longrightarrow> start_signal (observer (run sfp cfp nid proc steps))"
  unfolding run_def
  by (induction steps arbitrary: proc) (simp_all add: daemon_step_keeps_start_signal)

lemma deliver_online:
  assumes "start_signal self" and "sfp message = Some ev" and "state ev = ONLINE"
  shows "deliver sfp cfp nid self (GwStatus message) =
           self\<lparr>rx_queue := rx_queue self @
                  [\<lparr>request_name = ''get_configs'', gateway_id = gw_id ev\<rparr>]\<rparr>"
  using assms by (simp add: deliver_def on_status_received_def request_message_def)

section \<open>The claims\<close>

text \<open>
  Claim C1. For a status event delivered once \<open>start_signal\<close> is set, the status handler
  issues a request (the callback returns with a changed \<open>rx_queue\<close>) if and only if the
  event's state is ONLINE. For an ONLINE event it appends exactly one get\_configs
  request carrying the event's \<open>gw_id\<close> to \<open>rx_queue\<close> and changes nothing else: the
  status queue, the storage queue and the log are as before, so no gateway status
  record is emitted by the status handler.
\<close>

theorem on_status_received_online:
  assumes "start_signal self" and "from_payload message = Some ev"
  shows "((\<exists>self'. on_status_received from_payload self message = Inr self'
              \<and> rx_queue self' \<noteq> rx_queue self) \<longleftrightarrow> state ev = ONLINE)
       \<and> (state ev = ONLINE \<longrightarrow>
            on_status_received from_payload self message =
              Inr (self\<lparr>rx_queue := rx_queue self @
                     [\<lparr>request_name = ''get_configs'', gateway_id = gw_id ev\<rparr>]\<rparr>))"
proof -
  have online: "on_status_received from_payload self message =
      Inr (self\<lparr>rx_queue := rx_queue self @
             [\<lparr>request_name = ''get_configs'', gateway_id = gw_id ev\<rparr>]\<rparr>)"
    if "state ev = ONLINE"
    using assms that by (simp add: on_status_received_def request_message_def)
  have offline: "rx_queue self' = rx_queue self"
    if "state ev \<noteq> ONLINE" and "on_status_received from_payload self message = Inr self'"
    for self'
    using assms that
    by (auto simp: on_status_received_def split: sum.splits)
  show ?thesis
    using online offline by auto
qed

theorem on_status_received_online_witness:
  "on_status_received Some
     \<lparr>start_signal = True, gw_status_queue = Some ([] :: unit get_configs_response list),
      storage_queue = Some ([] :: string list), rx_queue = [], logger = []\<rparr>
     \<lparr>gw_id = ''G'', state = ONLINE\<rparr> =
   Inr \<lparr>start_signal = True, gw_status_queue = Some [], storage_queue = Some [],
        rx_queue = [\<lparr>request_name = ''get_configs'', gateway_id = ''G''\<rparr>], logger = []\<rparr>"
  using on_status_received_online
    [of "\<lparr>start_signal = True, gw_status_queue = Some ([] :: unit get_configs_response list),
      storage_queue = Some ([] :: string list), rx_queue = [], logger = []\<rparr>"
      Some "\<lparr>gw_id = ''G'', state = ONLINE\<rparr>" "\<lparr>gw_id = ''G'', state = ONLINE\<rparr>"]
  by simp




text \<open>
  Claim C3. A response handled once \<open>start_signal\<close> is set, with the wildcard filter
  \<open>"+"\<close>: the status queue receives the whole response once per entry of
  \<open>configs\<close>, so \<open>length (configs response)\<close> items, each of them the full response.
\<close>

theorem on_response_cb_wildcard:
  assumes "start_signal self" and "from_payload message = Some response"
    and "gw_status_queue self = Some items"
  shows "on_response_cb from_payload AnyNetwork self message =
           Inr (self\<lparr>gw_status_queue :=
                       Some (items @ replicate (length (configs response)) response),
                     logger := logger self @
                       [if configs response = []
                        then ConfigNotProcessed (gw_id response) AnyNetwork
                        else ConfigReceived (gw_id response)]\<rparr>)"
  using assms by (simp add: on_response_cb_def on_response_cb_loop_wildcard)

theorem on_response_cb_wildcard_witness:
  "on_response_cb Some AnyNetwork
     \<lparr>start_signal = True, gw_status_queue = Some [], storage_queue = Some ([] :: string list),
      rx_queue = [], logger = []\<rparr>
     \<lparr>gw_id = ''G'', configs =
        [\<lparr>network_address = Some 1, other_fields = ''sink0''\<rparr>,
         \<lparr>network_address = Some 2, other_fields = ''sink1''\<rparr>,
         \<lparr>network_address = Some 2, other_fields = ''sink2''\<rparr>]\<rparr> =
   Inr \<lparr>start_signal = True,
        gw_status_queue = Some (replicate 3 \<lparr>gw_id = ''G'', configs =
          [\<lparr>network_address = Some 1, other_fields = ''sink0''\<rparr>,
           \<lparr>network_address = Some 2, other_fields = ''sink1''\<rparr>,
           \<lparr>network_address = Some 2, other_fields = ''sink2''\<rparr>]\<rparr>),
        storage_queue = Some [], rx_queue = [], logger = [ConfigReceived ''G'']\<rparr>"
  using on_response_cb_wildcard
    [of "\<lparr>start_signal = True, gw_status_queue = Some [],
          storage_queue = Some ([] :: string list), rx_queue = [], logger = []\<rparr>"
        Some
        "\<lparr>gw_id = ''G'', configs =
          [\<lparr>network_address = Some 1, other_fields = ''sink0''\<rparr>,
           \<lparr>network_address = Some 2, other_fields = ''sink1''\<rparr>,
           \<lparr>network_address = Some 2, other_fields = ''sink2''\<rparr>]\<rparr>"
        "\<lparr>gw_id = ''G'', configs =
          [\<lparr>network_address = Some 1, other_fields = ''sink0''\<rparr>,
           \<lparr>network_address = Some 2, other_fields = ''sink1''\<rparr>,
           \<lparr>network_address = Some 2, other_fields = ''sink2''\<rparr>]\<rparr>"
        "[]"]
  by (simp add: numeral_3_eq_3)

text \<open>
  Claim C4. For an OFFLINE status event delivered once \<open>start_signal\<close> is set, the
  status queue receives exactly one record with the event's \<open>gw_id\<close> and an empty
  \<open>configs\<close> list; nothing else changes, \<open>rx_queue\<close> in particular, so no request is
  published.
\<close>

theorem on_status_received_offline:
  assumes "start_signal self" and "from_payload message = Some ev"
    and "state ev = OFFLINE" and "gw_status_queue self = Some items"
  shows "on_status_received from_payload self message =
           Inr (self\<lparr>gw_status_queue :=
                       Some (items @ [\<lparr>gw_id = gw_id ev, configs = []\<rparr>])\<rparr>)"
  using assms by (simp add: on_status_received_def put_Some)

theorem on_status_received_offline_witness:
  "on_status_received Some
     \<lparr>start_signal = True, gw_status_queue = Some ([] :: unit get_configs_response list),
      storage_queue = Some ([] :: string list), rx_queue = [], logger = []\<rparr>
     \<lparr>gw_id = ''G'', state = OFFLINE\<rparr> =
   Inr \<lparr>start_signal = True, gw_status_queue = Some [\<lparr>gw_id = ''G'', configs = []\<rparr>],
        storage_queue = Some [], rx_queue = [], logger = []\<rparr>"
  using on_status_received_offline
    [of "\<lparr>start_signal = True, gw_status_queue = Some ([] :: unit get_configs_response list),
          storage_queue = Some ([] :: string list), rx_queue = [], logger = []\<rparr>"
        Some "\<lparr>gw_id = ''G'', state = OFFLINE\<rparr>" "\<lparr>gw_id = ''G'', state = OFFLINE\<rparr>" "[]"]
  by simp

text \<open>
  Claim C5. While \<open>start_signal\<close> is unset, each of the three callbacks only writes its
  "waiting for start signal" debug record: whatever the message and its topic class,
  the callback returns without an exception, and the storage queue, the status queue
  and \<open>rx_queue\<close> are as before. The payload is not even decoded.
\<close>

theorem handlers_ignore_before_start_signal:
  assumes "\<not> start_signal self"
  shows "on_data_received self data = Inr (self\<lparr>logger := logger self @ [DataIgnored]\<rparr>)
       \<and> on_status_received sfp self payload =
           Inr (self\<lparr>logger := logger self @ [StatusIgnored]\<rparr>)
       \<and> on_response_cb cfp nid self payload =
           Inr (self\<lparr>logger := logger self @ [ConfigIgnored]\<rparr>)
       \<and> (\<exists>self'. message_subscribe_handlers sfp cfp nid self message = Inr self'
             \<and> storage_queue self' = storage_queue self
             \<and> gw_status_queue self' = gw_status_queue self
             \<and> rx_queue self' = rx_queue self)"
proof -
  have d: "on_data_received self x = Inr (self\<lparr>logger := logger self @ [DataIgnored]\<rparr>)" for x
    using assms by (simp add: on_data_received_def)
  have s: "on_status_received sfp self x =
      Inr (self\<lparr>logger := logger self @ [StatusIgnored]\<rparr>)" for x
    using assms by (simp add: on_status_received_def)
  have r: "on_response_cb cfp nid self x =
      Inr (self\<lparr>logger := logger self @ [ConfigIgnored]\<rparr>)" for x
    using assms by (simp add: on_response_cb_def)
  have "\<exists>self'. message_subscribe_handlers sfp cfp nid self message = Inr self'
             \<and> storage_queue self' = storage_queue self
             \<and> gw_status_queue self' = gw_status_queue self
             \<and> rx_queue self' = rx_queue self"
    by (cases message) (simp_all add: d s r)
  with d s r show ?thesis by blast
qed

theorem handlers_ignore_before_start_signal_witness:
  "on_data_received
     \<lparr>start_signal = False, gw_status_queue = Some ([] :: unit get_configs_response list),
      storage_queue = Some [], rx_queue = [], logger = []\<rparr> ''data'' =
   Inr \<lparr>start_signal = False, gw_status_queue = Some [], storage_queue = Some [],
        rx_queue = [], logger = [DataIgnored]\<rparr>
   \<and> on_status_received (Some :: status_event \<Rightarrow> status_event option)
     \<lparr>start_signal = False, gw_status_queue = Some ([] :: unit get_configs_response list),
      storage_queue = Some ([] :: string list), rx_queue = [], logger = []\<rparr>
     \<lparr>gw_id = ''G'', state = ONLINE\<rparr> =
   Inr \<lparr>start_signal = False, gw_status_queue = Some [], storage_queue = Some [],
        rx_queue = [], logger = [StatusIgnored]\<rparr>"
  using handlers_ignore_before_start_signal
    [of "\<lparr>start_signal = False, gw_status_queue = Some ([] :: unit get_configs_response list),
      storage_queue = Some [], rx_queue = [], logger = []\<rparr>" "''data''"
      Some "\<lparr>gw_id = ''G'', state = ONLINE\<rparr>"]
  by simp

text \<open>
  Claim C6 as stated fails for an ONLINE status event: the status handler puts nothing
  on the status queue, and the response that follows adds nothing either when none of
  its sinks is on the filter's network.
\<close>

theorem status_record_for_every_event_counterexample:
  "on_status_received Some
     \<lparr>start_signal = True, gw_status_queue = Some ([] :: string get_configs_response list),
      storage_queue = Some ([] :: string list), rx_queue = [], logger = []\<rparr>
     \<lparr>gw_id = ''gw1'', state = ONLINE\<rparr> =
   Inr \<lparr>start_signal = True, gw_status_queue = Some [], storage_queue = Some [],
        rx_queue = [\<lparr>request_name = ''get_configs'', gateway_id = ''gw1''\<rparr>], logger = []\<rparr>
   \<and> on_response_cb Some (Network 2)
     \<lparr>start_signal = True, gw_status_queue = Some [], storage_queue = Some ([] :: string list),
      rx_queue = [\<lparr>request_name = ''get_configs'', gateway_id = ''gw1''\<rparr>], logger = []\<rparr>
     \<lparr>gw_id = ''gw1'', configs = [\<lparr>network_address = Some 9, other_fields = ''sink0''\<rparr>]\<rparr> =
   Inr \<lparr>start_signal = True, gw_status_queue = Some [], storage_queue = Some [],
        rx_queue = [\<lparr>request_name = ''get_configs'', gateway_id = ''gw1''\<rparr>],
        logger = [ConfigNotProcessed ''gw1'' (Network 2)]\<rparr>"
  by (simp add: on_status_received_def on_response_cb_def request_message_def)

text \<open>
  Claim C6, amended. With \<open>start_signal\<close> set and a status queue present: an OFFLINE
  status event appends one record to the status queue; an ONLINE status event
  leaves the status queue as it is; and under the wildcard filter \<open>"+"\<close> a response
  appends one item per entry of its \<open>configs\<close>. So the number of items on the status
  queue is not the number of events.
\<close>

theorem gw_status_queue_emissions:
  assumes "start_signal self" and "gw_status_queue self = Some items"
  shows "(sfp payload = Some ev \<and> state ev = OFFLINE \<longrightarrow>
            on_status_received sfp self payload =
              Inr (self\<lparr>gw_status_queue :=
                          Some (items @ [\<lparr>gw_id = gw_id ev, configs = []\<rparr>])\<rparr>))
       \<and> (sfp payload = Some ev \<and> state ev = ONLINE \<longrightarrow>
            (\<exists>self'. on_status_received sfp self payload = Inr self'
               \<and> gw_status_queue self' = Some items))
       \<and> (cfp payload' = Some response \<longrightarrow>
            (\<exists>self'. on_response_cb cfp AnyNetwork self payload' = Inr self'
               \<and> gw_status_queue self' =
                   Some (items @ replicate (length (configs response)) response)))"
  using assms
  by (simp add: on_status_received_def on_response_cb_def put_Some
        on_response_cb_loop_wildcard)

theorem gw_status_queue_emissions_witness:
  "on_status_received Some
     \<lparr>start_signal = True, gw_status_queue = Some ([] :: unit get_configs_response list),
      storage_queue = Some ([] :: string list), rx_queue = [], logger = []\<rparr>
     \<lparr>gw_id = ''gw2'', state = OFFLINE\<rparr> =
   Inr \<lparr>start_signal = True, gw_status_queue = Some [\<lparr>gw_id = ''gw2'', configs = []\<rparr>],
        storage_queue = Some [], rx_queue = [], logger = []\<rparr>
   \<and> (\<exists>self'. on_status_received Some
         \<lparr>start_signal = True, gw_status_queue = Some ([] :: unit get_configs_response list),
          storage_queue = Some ([] :: string list), rx_queue = [], logger = []\<rparr>
         \<lparr>gw_id = ''gw2'', state = ONLINE\<rparr> = Inr self'
        \<and> gw_status_queue self' = Some [])
   \<and> (\<exists>self'. on_response_cb Some AnyNetwork
         \<lparr>start_signal = True, gw_status_queue = Some [],
          storage_queue = Some ([] :: string list), rx_queue = [], logger = []\<rparr>
         \<lparr>gw_id = ''gw2'', configs =
            [\<lparr>network_address = Some 1, other_fields = ()\<rparr>,
             \<lparr>network_address = Some 2, other_fields = ()\<rparr>]\<rparr> = Inr self'
        \<and> gw_status_queue self' =
            Some [\<lparr>gw_id = ''gw2'', configs =
                     [\<lparr>network_address = Some 1, other_fields = ()\<rparr>,
                      \<lparr>network_address = Some 2, other_fields = ()\<rparr>]\<rparr>,
                  \<lparr>gw_id = ''gw2'', configs =
                     [\<lparr>network_address = Some 1, other_fields = ()\<rparr>,
                      \<lparr>network_address = Some 2, other_fields = ()\<rparr>]\<rparr>])"
  using gw_status_queue_emissions
    [of "\<lparr>start_signal = True, gw_status_queue = Some ([] :: unit get_configs_response list),
          storage_queue = Some ([] :: string list), rx_queue = [], logger = []\<rparr>"
        "[]" Some "\<lparr>gw_id = ''gw2'', state = OFFLINE\<rparr>" "\<lparr>gw_id = ''gw2'', state = OFFLINE\<rparr>"
        Some
        "\<lparr>gw_id = ''gw2'', configs =
            [\<lparr>network_address = Some 1, other_fields = ()\<rparr>,
             \<lparr>network_address = Some 2, other_fields = ()\<rparr>]\<rparr>"
        "\<lparr>gw_id = ''gw2'', configs =
            [\<lparr>network_address = Some 1, other_fields = ()\<rparr>,
             \<lparr>network_address = Some 2, other_fields = ()\<rparr>]\<rparr>"]
    gw_status_queue_emissions
    [of "\<lparr>start_signal = True, gw_status_queue = Some ([] :: unit get_configs_response list),
          storage_queue = Some ([] :: string list), rx_queue = [], logger = []\<rparr>"
        "[]" Some "\<lparr>gw_id = ''gw2'', state = ONLINE\<rparr>" "\<lparr>gw_id = ''gw2'', state = ONLINE\<rparr>"
        Some
        "\<lparr>gw_id = ''gw2'', configs =
            [\<lparr>network_address = Some 1, other_fields = ()\<rparr>,
             \<lparr>network_address = Some 2, other_fields = ()\<rparr>]\<rparr>"
        "\<lparr>gw_id = ''gw2'', configs =
            [\<lparr>network_address = Some 1, other_fields = ()\<rparr>,
             \<lparr>network_address = Some 2, other_fields = ()\<rparr>]\<rparr>"]
  by (simp add: numeral_2_eq_2)

text \<open>
  Claim C7. The status handler keeps nothing between invocations. Delivering the same
  ONLINE status event twice once \<open>start_signal\<close> is set appends two get\_configs requests
  to \<open>rx_queue\<close>; and after any list \<open>earlier\<close> of deliveries, of any topic class, the
  delivery of an ONLINE event appends exactly one request for the event's gateway and
  changes nothing else.
\<close>

theorem on_status_received_no_deduplication:
  assumes "start_signal self" and "sfp message = Some ev" and "state ev = ONLINE"
  shows "rx_queue (deliver sfp cfp nid (deliver sfp cfp nid self (GwStatus message))
                     (GwStatus message)) =
           rx_queue self @ [\<lparr>request_name = ''get_configs'', gateway_id = gw_id ev\<rparr>,
                            \<lparr>request_name = ''get_configs'', gateway_id = gw_id ev\<rparr>]
       \<and> deliver sfp cfp nid (foldl (deliver sfp cfp nid) self earlier) (GwStatus message) =
           (foldl (deliver sfp cfp nid) self earlier)
             \<lparr>rx_queue := rx_queue (foldl (deliver sfp cfp nid) self earlier) @
                [\<lparr>request_name = ''get_configs'', gateway_id = gw_id ev\<rparr>]\<rparr>"
proof
  let ?once = "deliver sfp cfp nid self (GwStatus message)"
  have "start_signal ?once"
    using assms(1) by (simp add: deliver_start_signal)
  then show "rx_queue (deliver sfp cfp nid ?once (GwStatus message)) =
           rx_queue self @ [\<lparr>request_name = ''get_configs'', gateway_id = gw_id ev\<rparr>,
                            \<lparr>request_name = ''get_configs'', gateway_id = gw_id ev\<rparr>]"
    using assms by (simp add: deliver_online)
next
  let ?later = "foldl (deliver sfp cfp nid) self earlier"
  have "start_signal ?later"
    using assms(1) by (simp add: foldl_deliver_start_signal)
  then show "deliver sfp cfp nid ?later (GwStatus message) =
           ?later\<lparr>rx_queue := rx_queue ?later @
                [\<lparr>request_name = ''get_configs'', gateway_id = gw_id ev\<rparr>]\<rparr>"
    using assms(2,3) by (rule deliver_online)
qed

theorem on_status_received_no_deduplication_witness:
  "rx_queue (deliver Some Map.empty AnyNetwork
      (deliver Some Map.empty AnyNetwork
         \<lparr>start_signal = True, gw_status_queue = Some ([] :: unit get_configs_response list),
          storage_queue = Some ([] :: string list), rx_queue = [], logger = []\<rparr>
         (GwStatus \<lparr>gw_id = ''G'', state = ONLINE\<rparr>))
      (GwStatus \<lparr>gw_id = ''G'', state = ONLINE\<rparr>)) =
   [\<lparr>request_name = ''get_configs'', gateway_id = ''G''\<rparr>,
    \<lparr>request_name = ''get_configs'', gateway_id = ''G''\<rparr>]"
proof -
  have "start_signal
     \<lparr>start_signal = True, gw_status_queue = Some ([] :: unit get_configs_response list),
      storage_queue = Some ([] :: string list), rx_queue = [], logger = []\<rparr>"
    and "Some \<lparr>gw_id = ''G'', state = ONLINE\<rparr> = Some \<lparr>gw_id = ''G'', state = ONLINE\<rparr>"
    and "state \<lparr>gw_id = ''G'', state = ONLINE\<rparr> = ONLINE"
    by simp_all
  from on_status_received_no_deduplication
    [of "\<lparr>start_signal = True, gw_status_queue = Some ([] :: unit get_configs_response list),
          storage_queue = Some ([] :: string list), rx_queue = [], logger = []\<rparr>"
        Some "\<lparr>gw_id = ''G'', state = ONLINE\<rparr>" "\<lparr>gw_id = ''G'', state = ONLINE\<rparr>"
        Map.empty AnyNetwork "[]", OF this, THEN conjunct1]
  show ?thesis by simp
qed

text \<open>
  Claim C8 as stated fails for an observer without a storage queue: the data message
  is not forwarded anywhere.
\<close>

theorem on_data_received_forwards_counterexample:
  "on_data_received
     \<lparr>start_signal = True, gw_status_queue = Some ([] :: unit get_configs_response list),
      storage_queue = None, rx_queue = [], logger = []\<rparr> ''payload'' =
   Inr \<lparr>start_signal = True, gw_status_queue = Some [], storage_queue = None,
        rx_queue = [], logger = []\<rparr>"
  by (simp add: on_data_received_def)

text \<open>
  Claim C8, amended. For an observer that has a storage queue, every data message
  delivered once \<open>start_signal\<close> is set is appended to the storage queue as it is,
  whatever the message: it is neither inspected nor changed, and nothing else changes.
\<close>

theorem on_data_received_forwards:
  assumes "start_signal self" and "storage_queue self = Some items"
  shows "on_data_received self message =
           Inr (self\<lparr>storage_queue := Some (items @ [message])\<rparr>)"
  using assms by (simp add: on_data_received_def)

theorem on_data_received_forwards_witness:
  "on_data_received
     \<lparr>start_signal = True, gw_status_queue = Some ([] :: unit get_configs_response list),
      storage_queue = Some [''first''], rx_queue = [], logger = []\<rparr> ''second'' =
   Inr \<lparr>start_signal = True, gw_status_queue = Some [],
        storage_queue = Some [''first'', ''second''], rx_queue = [], logger = []\<rparr>"
  using on_data_received_forwards
    [of "\<lparr>start_signal = True, gw_status_queue = Some ([] :: unit get_configs_response list),
          storage_queue = Some [''first''], rx_queue = [], logger = []\<rparr>"
        "[''first'']" "''second''"]
  by simp

text \<open>
  Claim C9. The start signal of a freshly built process is unset. Once it is set, it
  stays set along every run of the process: deliveries of any topic class, further
  starts and stops. In particular every run that contains a \<open>Start True\<close> ends with the
  signal set, whatever follows the start. No callback writes \<open>start_signal\<close>; the
  daemon's part is modelled from the spec.
\<close>

theorem start_signal_monotone:
  "\<not> start_signal (observer (build obs))
   \<and> (start_signal (observer proc) \<longrightarrow>
        start_signal (observer (run sfp cfp nid proc steps)))
   \<and> start_signal (observer (run sfp cfp nid proc (before @ Start True # after)))"
proof (intro conjI impI)
  show "\<not> start_signal (observer (build obs))"
    by (simp add: build_def)
next
  assume "start_signal (observer proc)"
  then show "start_signal (observer (run sfp cfp nid proc steps))"
    by (rule run_keeps_start_signal)
next
  have "run sfp cfp nid proc (before @ Start True # after) =
        run sfp cfp nid (daemon_step sfp cfp nid (run sfp cfp nid proc before) (Start True)) after"
    by (simp add: run_def)
  moreover have "start_signal (observer (daemon_step sfp cfp nid (run sfp cfp nid proc before) (Start True)))"
    by simp
  ultimately show "start_signal (observer (run sfp cfp nid proc (before @ Start True # after)))"
    by (simp add: run_keeps_start_signal)
qed



theorem start_signal_monotone_witness:
  "start_signal (observer
     \<lparr>observer =
        \<lparr>start_signal = True, gw_status_queue = Some ([] :: unit get_configs_response list),
         storage_queue = Some ([] :: string list), rx_queue = [], logger = []\<rparr>,
      exit_signal = False\<rparr>)
   \<and> start_signal (observer (run Some Map.empty AnyNetwork
     \<lparr>observer =
        \<lparr>start_signal = True, gw_status_queue = Some ([] :: unit get_configs_response list),
         storage_queue = Some ([] :: string list), rx_queue = [], logger = []\<rparr>,
      exit_signal = False\<rparr>
     [Stop, Deliver (GwStatus \<lparr>gw_id = ''G'', state = ONLINE\<rparr>)]))"
  using start_signal_monotone
    [of "\<lparr>start_signal = True, gw_status_queue = Some ([] :: unit get_configs_response list),
         storage_queue = Some ([] :: string list), rx_queue = [], logger = []\<rparr>"
      "\<lparr>observer =
        \<lparr>start_signal = True, gw_status_queue = Some ([] :: unit get_configs_response list),
         storage_queue = Some ([] :: string list), rx_queue = [], logger = []\<rparr>,
      exit_signal = False\<rparr>"
      Some Map.empty AnyNetwork
      "[Stop, Deliver (GwStatus \<lparr>gw_id = ''G'', state = ONLINE\<rparr>)]"
      "[]" "[]", THEN conjunct2, THEN conjunct1]
  by simp

text \<open>
  Claim C10. An observer built without a storage queue (\<open>storage_queue\<close> is \<open>None\<close>)
  drops every data message delivered once \<open>start_signal\<close> is set: the callback returns
  with the observer unchanged, so nothing is forwarded and nothing is logged.
\<close>

theorem on_data_received_without_storage_queue:
  assumes "start_signal self" and "storage_queue self = None"
  shows "on_data_received self message = Inr self"
  using assms by (simp add: on_data_received_def)

theorem on_data_received_without_storage_queue_witness:
  "on_data_received
     \<lparr>start_signal = True, gw_status_queue = Some ([] :: unit get_configs_response list),
      storage_queue = None, rx_queue = [], logger = [ConfigReceived ''G'']\<rparr> ''data'' =
   Inr \<lparr>start_signal = True, gw_status_queue = Some [], storage_queue = None,
        rx_queue = [], logger = [ConfigReceived ''G'']\<rparr>"
  using on_data_received_without_storage_queue
    [of "\<lparr>start_signal = True, gw_status_queue = Some ([] :: unit get_configs_response list),
          storage_queue = None, rx_queue = [], logger = [ConfigReceived ''G'']\<rparr>" "''data''"]
  by simp

end
